theory Spec2Isabelle
  imports Complex_Main "HOL-Library.Signed_Division"
begin

section \<open>Numbers, durations and errors\<close>

text \<open>
  The calculator computes on Go \<^verbatim>\<open>float64\<close> values. They are modelled by real numbers:
  every arithmetic operation is the exact one, without rounding, infinities or NaN. The
  theorems on the calculation below therefore state a result as the expression that the
  code evaluates, with the code's operations in the code's order, and none of them
  equates two different expressions, which \<^verbatim>\<open>float64\<close> rounding could tell apart.
  The numbers of the worked example are those of exact arithmetic. A division by zero,
  which yields an infinity or NaN in Go, yields 0 here; no theorem below depends on its
  value.

  A \<^verbatim>\<open>time.Duration\<close> is a count of nanoseconds in 64 bits; it is modelled by an
  integer. The code computes no duration, it only converts the configured interval to
  minutes, so no wrap-around can occur. An \<^verbatim>\<open>error\<close> is modelled by its message, and a Go
  result pair \<^verbatim>\<open>(float64, error)\<close> by a sum whose left side is the error (the zero that
  accompanies an error in Go is never read by the callers).

  A call either returns or panics. The calculator has no \<^verbatim>\<open>recover\<close>, so a panic of a
  function it calls ends every function on the way up to the handler: \<open>Panics\<close> is the
  outcome of a function that returns a value, \<open>Panicked\<close> the way a run of the handler
  ends, when that happens.
\<close>

datatype 'a outcome = Returns 'a | Panics

datatype completion = Returned | Panicked

type_synonym Duration = int

type_synonym error = string

definition Minute :: Duration where
  "Minute = 60 * 1000000000"

text \<open>
  \<^verbatim>\<open>Duration.Minutes\<close> of Go's standard library:
  \<^verbatim>\<open>min := d / Minute; nsec := d % Minute; return float64(min) + float64(nsec)/(60*1e9)\<close>.
  Go's integer division and remainder truncate towards zero.
\<close>

definition Minutes :: "Duration \<Rightarrow> real" where
  "Minutes d =
     (let min = d sdiv Minute;
          nsec = d smod Minute
      in real_of_int min + real_of_int nsec / (60 * 1000000000))"

section \<open>Data model\<close>

datatype ResourceType = CPU | Memory | Storage | Network

datatype ResourceEmissionUnit = GCO2eqkWh

text \<open>
  \<^verbatim>\<open>v1.NewResourceEmission(value, unit)\<close> builds an emission value from an amount and
  its unit; it is a constructor here.
\<close>

datatype ResourceEmissions = NewResourceEmission real ResourceEmissionUnit

text \<open>
  A \<^verbatim>\<open>v1.Metric\<close>: the fields the calculator reads and writes. An emission that has
  not been computed is \<open>None\<close>.
\<close>

record Metric =
  Name :: string
  Usage :: real
  UnitAmount :: real
  Emissions :: "ResourceEmissions option"

text \<open>\<^verbatim>\<open>data.Wattage\<close>: one control point of a wattage curve.\<close>

record data_Wattage =
  Percentage :: int
  Wattage :: real

text \<open>
  \<^verbatim>\<open>parameters\<close> of the calculator. Its field \<^verbatim>\<open>metric\<close> is a pointer, nil when the
  handler builds the parameters and then pointed at each metric in turn; the functions
  below take the metric it points to as an argument of its own, after the parameters.
\<close>

record parameters =
  gridCO2e :: real
  pue :: real
  wattage :: "data_Wattage list"
  vCPU :: real
  embodiedFactor :: real

text \<open>\<^verbatim>\<open>data.Instance\<close>: the entry of one instance kind in the external dataset.\<close>

record data_Instance =
  PkgWatt :: "data_Wattage list"
  VCPU :: int
  EmbodiedHourlyGCO2e :: real

text \<open>\<^verbatim>\<open>factors.Embodied\<close>: the embodied specs of one instance kind.\<close>

record factors_Embodied =
  MinWatts :: real
  MaxWatts :: real
  TotalEmbodiedKiloWattCO2e :: real
  KindVCPU :: real
  TotalVCPU :: real

text \<open>
  The emission factors of one provider. \<^verbatim>\<open>Coefficient\<close> and \<^verbatim>\<open>Embodied\<close> are Go
  maps, read with the two-valued index expression.
\<close>

record EmissionFactors =
  AveragePUE :: real
  Coefficient :: "string \<rightharpoonup> real"
  Embodied :: "string \<rightharpoonup> factors_Embodied"

text \<open>
  A \<^verbatim>\<open>v1.Instance\<close>: the fields the handler reads and writes. Its metrics are an
  ordered collection of \<^typ>\<open>Metric\<close>.
\<close>

record Instance =
  Provider :: string
  Region :: string
  Kind :: string
  InstanceName :: string
  Metrics :: "Metric list"
  EmbodiedEmissions :: "ResourceEmissions option"

text \<open>
  A \<^verbatim>\<open>bus.Event\<close>. Its payload has an interface type; the handler's type assertion
  \<^verbatim>\<open>e.Data.(v1.Instance)\<close> succeeds on \<open>InstanceData\<close> only.
\<close>

datatype EventType = MetricsCollectedEvent | EmissionsCalculatedEvent

datatype EventData = InstanceData Instance | OtherData

record Event =
  Type :: EventType
  Data :: EventData

text \<open>
  What the handler does to the outside: an error line of its logger (the message, without
  the attributes that follow it) and a call of \<^verbatim>\<open>Bus.Publish\<close>.
\<close>

datatype effect = LogError string | Publish Event

text \<open>
  What the calculator takes from other packages and from its surroundings, as parameters:
  \<^item> \<open>ResourceType_String\<close>: the method \<^verbatim>\<open>ResourceType.String\<close>, the name of each
    metric kind;
  \<^item> \<open>NewCubicSpline\<close>: \<^verbatim>\<open>gospline.NewCubicSpline(x, y)\<close> followed by
    \<^verbatim>\<open>s.At(value)\<close>, the spline through the points \<open>x\<close>, \<open>y\<close> evaluated at a value, or
    \<open>None\<close> where the library panics instead of returning (it does on a single point,
    and on points whose \<open>x\<close> do not ascend);
  \<^item> \<open>Interval\<close>: \<^verbatim>\<open>config.AppConfig().ProvidersConfig.Interval\<close>;
  \<^item> \<open>GetProviderEmissionFactors\<close>: \<^verbatim>\<open>factors.GetProviderEmissionFactors\<close> at
    \<^verbatim>\<open>factors.DataPath\<close>, by provider;
  \<^item> \<open>awsInstances\<close>: the package variable of that name, the external per-kind dataset
    loaded by \<^verbatim>\<open>NewHandler\<close> (empty when loading failed);
  \<^item> \<open>BusPublish\<close>: the error, if any, that \<^verbatim>\<open>Bus.Publish\<close> returns for an event.
\<close>

record env =
  ResourceType_String :: "ResourceType \<Rightarrow> string"
  NewCubicSpline :: "real list \<Rightarrow> real list \<Rightarrow> real \<Rightarrow> real option"
  Interval :: Duration
  GetProviderEmissionFactors :: "string \<Rightarrow> error + EmissionFactors"
  awsInstances :: "string \<rightharpoonup> data_Instance"
  BusPublish :: "Event \<Rightarrow> error option"

section \<open>The calculation: \<^verbatim>\<open>operationalEmissions\<close>, \<^verbatim>\<open>cpu\<close> and the spline\<close>

text \<open>
  The loop of \<^verbatim>\<open>cubicSplineInterpolation\<close> that splits the wattage slice into the
  slice \<open>x\<close> of percentages and the slice \<open>y\<close> of wattages, appending one point at a time.
\<close>

fun splitWattage :: "data_Wattage list \<Rightarrow> real list \<Rightarrow> real list \<Rightarrow> real list \<times> real list" where
  "splitWattage [] x y = (x, y)"
| "splitWattage (w # ws) x y =
     splitWattage ws (x @ [real_of_int (Percentage w)]) (y @ [Wattage w])"

text \<open>
  \<^verbatim>\<open>cubicSplineInterpolation\<close>. The only guard is the one on the empty curve; every
  other curve goes to the library, and a panic there is a panic of this function.
\<close>

definition cubicSplineInterpolation ::
    "env \<Rightarrow> data_Wattage list \<Rightarrow> real \<Rightarrow> (error + real) outcome" where
  "cubicSplineInterpolation c curve val =
     (if length curve = 0
      then Returns (Inl ''error: cannot calculate CPU energy, no wattage found'')
      else (case splitWattage curve [] [] of
              (x, y) \<Rightarrow>
                (case NewCubicSpline c x y val of
                   None \<Rightarrow> Panics
                 | Some w \<Rightarrow> Returns (Inr (w / 1000)))))"

text \<open>
  \<^verbatim>\<open>cpu\<close>. The first block settles the vCPU count or returns the error; the rest
  computes the vCPU hours, the kilowatts and the emission. The context argument, which
  only carries the logger, and the debug log line written before the result is returned
  are not part of the model.
\<close>

definition cpu ::
    "env \<Rightarrow> Duration \<Rightarrow> parameters \<Rightarrow> Metric \<Rightarrow> (error + real) outcome" where
  "cpu c interval p m =
     (case (if vCPU p = 0
            then (if UnitAmount m = 0 then Inl ''error vCPU set to 0''
                  else Inr (UnitAmount m))
            else Inr (vCPU p)) of
        Inl err \<Rightarrow> Returns (Inl err)
      | Inr vCPU' \<Rightarrow>
          (let vCPUHours = (Minutes interval / 60) * vCPU'
           in (case cubicSplineInterpolation c (wattage p) (Usage m) of
                 Panics \<Rightarrow> Panics
               | Returns (Inl err) \<Rightarrow> Returns (Inl err)
               | Returns (Inr usageCPUkw) \<Rightarrow>
                   Returns (Inr (usageCPUkw * vCPUHours * pue p * gridCO2e p)))))"

definition operationalEmissions ::
    "env \<Rightarrow> Duration \<Rightarrow> parameters \<Rightarrow> Metric \<Rightarrow> (error + real) outcome" where
  "operationalEmissions c interval p m =
     (let n = Name m in
      if n = ResourceType_String c CPU then cpu c interval p m
      else if n = ResourceType_String c Memory
        then Returns (Inl ''error memory is not yet being calculated'')
      else if n = ResourceType_String c Storage
        then Returns (Inl ''error storage is not yet being calculated'')
      else if n = ResourceType_String c Network
        then Returns (Inl ''error networking is not yet being calculated'')
      else Returns (Inl (''error metric not supported: '' @ n)))"

definition embodiedEmissions :: "Duration \<Rightarrow> real \<Rightarrow> real" where
  "embodiedEmissions interval hourlyEmbodied = hourlyEmbodied / 60 * Minutes interval"

section \<open>The handler: \<^verbatim>\<open>pkg/calculator/handler.go\<close>\<close>

definition serverLifespan :: real where
  "serverLifespan = 6"

definition hourlyEmbodiedEmissions :: "factors_Embodied \<Rightarrow> real" where
  "hourlyEmbodiedEmissions e =
     TotalEmbodiedKiloWattCO2e e *
     ((1 / 24 / 365) / serverLifespan) *
     (KindVCPU e / TotalVCPU e)"

text \<open>
  Modelled from the spec: \<^verbatim>\<open>Metrics.Upsert\<close> (the type \<^verbatim>\<open>v1.Metrics\<close> and its method are
  not among the sources). At most one metric is stored per kind; a new sample of an
  existing kind replaces the prior value in place, a sample of a new kind is added.
\<close>

fun Upsert :: "Metric list \<Rightarrow> Metric \<Rightarrow> Metric list" where
  "Upsert [] m = [m]"
| "Upsert (x # xs) m = (if Name x = Name m then m # xs else x # Upsert xs m)"

text \<open>
  Lines 119 to 146 of \<^verbatim>\<open>handleEvent\<close>: the parameters of the calculation, from the
  external dataset when it has the kind, from the embodied specs otherwise. The
  parameters start with grid intensity and PUE set and every other field zero; each
  branch assigns the fields it names, so \<^verbatim>\<open>vCPU\<close> keeps its zero value in the second.
\<close>

definition handleEvent_params ::
    "env \<Rightarrow> real \<Rightarrow> real \<Rightarrow> string \<Rightarrow> factors_Embodied \<Rightarrow> parameters" where
  "handleEvent_params c gridCO2e' pue' kind specs =
     (let params = \<lparr>gridCO2e = gridCO2e', pue = pue', wattage = [], vCPU = 0,
                     embodiedFactor = 0\<rparr>
      in case awsInstances c kind of
           Some d \<Rightarrow>
             params\<lparr>wattage := PkgWatt d,
                    vCPU := real_of_int (VCPU d),
                    embodiedFactor := EmbodiedHourlyGCO2e d\<rparr>
         | None \<Rightarrow>
             params\<lparr>wattage := [\<lparr>Percentage = 0, Wattage = MinWatts specs\<rparr>,
                                \<lparr>Percentage = 100, Wattage = MaxWatts specs\<rparr>],
                    embodiedFactor := hourlyEmbodiedEmissions specs\<rparr>)"

text \<open>
  Lines 150 to 161: the loop over the metrics of the instance. The third argument is what
  is left of the range, the fourth the collection being updated. A metric whose
  calculation fails is logged and skipped (\<^verbatim>\<open>continue\<close>); the others receive their
  emission and are stored back. A calculation that panics ends the loop there. The result
  is what was logged, the collection as the loop left it, and how the loop ended.
\<close>

fun handleEvent_metrics ::
    "env \<Rightarrow> parameters \<Rightarrow> Metric list \<Rightarrow> Metric list \<Rightarrow>
       effect list \<times> Metric list \<times> completion" where
  "handleEvent_metrics c params [] metrics = ([], metrics, Returned)"
| "handleEvent_metrics c params (v # vs) metrics =
     (case operationalEmissions c (Interval c) params v of
        Panics \<Rightarrow> ([], metrics, Panicked)
      | Returns (Inl err) \<Rightarrow>
          (case handleEvent_metrics c params vs metrics of
             (logs, rest) \<Rightarrow>
               (LogError ''failed calculating operational emissions'' # logs, rest))
      | Returns (Inr opEm) \<Rightarrow>
          (let v' = v\<lparr>Emissions := Some (NewResourceEmission opEm GCO2eqkWh)\<rparr>
           in handleEvent_metrics c params vs (Upsert metrics v')))"

text \<open>
  Lines 148 to 174: the loop, the embodied emissions of the instance, and the event
  published on the bus. After a panic in the loop nothing of this is reached.
\<close>

definition handleEvent_calculate ::
    "env \<Rightarrow> Instance \<Rightarrow> parameters \<Rightarrow> effect list \<times> completion" where
  "handleEvent_calculate c instance params =
     (case handleEvent_metrics c params (Metrics instance) (Metrics instance) of
        (logs, metrics', Panicked) \<Rightarrow> (logs, Panicked)
      | (logs, metrics', Returned) \<Rightarrow>
          (let instance' = instance
                 \<lparr>Metrics := metrics',
                  EmbodiedEmissions :=
                    Some (NewResourceEmission
                            (embodiedEmissions (Interval c) (embodiedFactor params))
                            GCO2eqkWh)\<rparr>;
               ev = \<lparr>Type = EmissionsCalculatedEvent, Data = InstanceData instance'\<rparr>
           in (logs @ [Publish ev] @
               (case BusPublish c ev of
                  Some err \<Rightarrow> [LogError ''failed publishing instance after calculation'']
                | None \<Rightarrow> []),
               Returned)))"

text \<open>
  \<^verbatim>\<open>handleEvent\<close>: what the handler does to the outside, in order, and how the run ends.
\<close>

definition handleEvent :: "env \<Rightarrow> Event \<Rightarrow> effect list \<times> completion" where
  "handleEvent c e =
     (case Data e of
        OtherData \<Rightarrow> ([LogError ''EmissionCalculator got an unknown event''], Returned)
      | InstanceData instance \<Rightarrow>
          (case GetProviderEmissionFactors c (Provider instance) of
             Inl err \<Rightarrow> ([LogError ''error getting emission factors''], Returned)
           | Inr emFactors \<Rightarrow>
               (case Coefficient emFactors (Region instance) of
                  None \<Rightarrow>
                    ([LogError ''region does not exist in factors for provider''], Returned)
                | Some gridCO2eTons \<Rightarrow>
                    (let gridCO2e' = gridCO2eTons * (1000 * 1000) in
                     case Embodied emFactors (Kind instance) of
                       None \<Rightarrow>
                         ([LogError ''failed finding instance in factor data''], Returned)
                     | Some specs \<Rightarrow>
                         (let params = handleEvent_params c gridCO2e' (AveragePUE emFactors)
                                         (Kind instance) specs
                          in handleEvent_calculate c instance params)))))"

definition Handle :: "env \<Rightarrow> Event \<Rightarrow> effect list \<times> completion" where
  "Handle c e =
     (case Type e of
        MetricsCollectedEvent \<Rightarrow> handleEvent c e
      | EmissionsCalculatedEvent \<Rightarrow> ([], Returned))"

text \<open>The events published in a sequence of effects, in order.\<close>

fun published :: "effect list \<Rightarrow> Event list" where
  "published [] = []"
| "published (LogError msg # fx) = published fx"
| "published (Publish ev # fx) = ev # published fx"

section \<open>A worked example\<close>

text \<open>
  Concrete values on which the theorems below are exercised: the scenario of an instance
  with four vCPUs at 50 percent CPU usage over five minutes, PUE 1.2, a grid intensity of
  100 grams per kWh and a wattage curve from 10 to 100 watts. For a curve of two points
  the spline is the straight line through them, which \<open>lineThrough\<close> computes from the
  first and the last point. \<open>demo_spline\<close> stands in for the library on the curves of the
  example: that line on two ascending points, and no value, as the library panics, on
  fewer than two points or on points that do not ascend.
\<close>

definition lineThrough :: "real list \<Rightarrow> real list \<Rightarrow> real \<Rightarrow> real" where
  "lineThrough x y v = hd y + (last y - hd y) * (v - hd x) / (last x - hd x)"

definition demo_spline :: "real list \<Rightarrow> real list \<Rightarrow> real \<Rightarrow> real option" where
  "demo_spline x y v =
     (if length x < 2 \<or> \<not> sorted_wrt (<) x then None else Some (lineThrough x y v))"

definition demo_String :: "ResourceType \<Rightarrow> string" where
  "demo_String k =
     (case k of CPU \<Rightarrow> ''cpu'' | Memory \<Rightarrow> ''memory''
      | Storage \<Rightarrow> ''storage'' | Network \<Rightarrow> ''network'')"

definition demo_specs :: factors_Embodied where
  "demo_specs = \<lparr>MinWatts = 10, MaxWatts = 100, TotalEmbodiedKiloWattCO2e = 1051200,
                  KindVCPU = 4, TotalVCPU = 96\<rparr>"

definition demo_factors :: EmissionFactors where
  "demo_factors =
     \<lparr>AveragePUE = 12 / 10,
      Coefficient = [''eu-west-1'' \<mapsto> 1 / 10000],
      Embodied = [''t3.xlarge'' \<mapsto> demo_specs, ''m5.large'' \<mapsto> demo_specs,
                  ''a1.medium'' \<mapsto> demo_specs]\<rparr>"

definition demo_curve :: "data_Wattage list" where
  "demo_curve = [\<lparr>Percentage = 0, Wattage = 10\<rparr>, \<lparr>Percentage = 100, Wattage = 100\<rparr>]"

definition demo_m5 :: data_Instance where
  "demo_m5 = \<lparr>PkgWatt = demo_curve, VCPU = 2, EmbodiedHourlyGCO2e = 3\<rparr>"

text \<open>A dataset entry whose wattage curve has a single control point.\<close>

definition demo_point :: "data_Wattage list" where
  "demo_point = [\<lparr>Percentage = 0, Wattage = 10\<rparr>]"

definition demo_a1 :: data_Instance where
  "demo_a1 = \<lparr>PkgWatt = demo_point, VCPU = 1, EmbodiedHourlyGCO2e = 1\<rparr>"

definition demo_env :: env where
  "demo_env =
     \<lparr>ResourceType_String = demo_String,
      NewCubicSpline = demo_spline,
      Interval = 300000000000,
      GetProviderEmissionFactors =
        (\<lambda>p. if p = ''aws'' then Inr demo_factors else Inl ''no factors for provider''),
      awsInstances = [''m5.large'' \<mapsto> demo_m5, ''m6g.large'' \<mapsto> demo_m5,
                      ''a1.medium'' \<mapsto> demo_a1],
      BusPublish = (\<lambda>ev. None)\<rparr>"

definition demo_params :: parameters where
  "demo_params = \<lparr>gridCO2e = 100, pue = 12 / 10, wattage = demo_curve, vCPU = 4,
                   embodiedFactor = 5 / 6\<rparr>"

definition demo_cpu :: Metric where
  "demo_cpu = \<lparr>Name = ''cpu'', Usage = 50, UnitAmount = 4, Emissions = None\<rparr>"

definition demo_memory :: Metric where
  "demo_memory = \<lparr>Name = ''memory'', Usage = 30, UnitAmount = 16, Emissions = None\<rparr>"

definition demo_instance :: Instance where
  "demo_instance =
     \<lparr>Provider = ''aws'', Region = ''eu-west-1'', Kind = ''t3.xlarge'',
      InstanceName = ''web-1'', Metrics = [demo_memory, demo_cpu],
      EmbodiedEmissions = None\<rparr>"

definition demo_event :: "Instance \<Rightarrow> Event" where
  "demo_event i = \<lparr>Type = MetricsCollectedEvent, Data = InstanceData i\<rparr>"

lemmas demo_defs =
  lineThrough_def demo_spline_def demo_String_def demo_specs_def demo_factors_def
  demo_curve_def demo_m5_def demo_point_def demo_a1_def demo_env_def demo_params_def
  demo_cpu_def demo_memory_def demo_instance_def demo_event_def

section \<open>Properties of the calculation\<close>

text \<open>
  In exact arithmetic the minutes of a duration are its nanoseconds divided by
  \<open>6 \<times> 10\<^sup>1\<^sup>0\<close>. The lemma serves to evaluate the example.
\<close>

lemma Minutes_eq: "Minutes d = real_of_int d / 60000000000"
proof -
  have "d sdiv Minute * Minute + d smod Minute = d"
    by (rule sdiv_mult_smod_eq)
  then have "real_of_int (d sdiv Minute * Minute + d smod Minute) = real_of_int d"
    by simp
  then have "real_of_int (d sdiv Minute) * 60000000000 + real_of_int (d smod Minute) = real_of_int d"
    by (simp add: Minute_def)
  then show ?thesis
    by (simp add: Minutes_def Let_def field_simps)
qed

text \<open>The loop that splits the curve yields its percentages and its wattages, in order.\<close>

lemma splitWattage_eq:
  "splitWattage ws x y = (x @ map (\<lambda>w. real_of_int (Percentage w)) ws, y @ map Wattage ws)"
  by (induction ws arbitrary: x y) simp_all

text \<open>The outcomes of the interpolation: the error, the panic of the library, the value.\<close>

lemma cubicSplineInterpolation_eq:
  "cubicSplineInterpolation c curve val =
     (if curve = [] then Returns (Inl ''error: cannot calculate CPU energy, no wattage found'')
      else (case NewCubicSpline c (map (\<lambda>w. real_of_int (Percentage w)) curve)
                   (map Wattage curve) val of
              None \<Rightarrow> Panics
            | Some watts \<Rightarrow> Returns (Inr (watts / 1000))))"
  by (simp add: cubicSplineInterpolation_def splitWattage_eq)

text \<open>The outcomes of \<open>cpu\<close>, in the order in which the source reaches them.\<close>

lemma cpu_eq:
  "cpu c interval p m =
     (if vCPU p = 0 \<and> UnitAmount m = 0 then Returns (Inl ''error vCPU set to 0'')
      else if wattage p = []
        then Returns (Inl ''error: cannot calculate CPU energy, no wattage found'')
      else (case NewCubicSpline c (map (\<lambda>w. real_of_int (Percentage w)) (wattage p))
                   (map Wattage (wattage p)) (Usage m) of
              None \<Rightarrow> Panics
            | Some watts \<Rightarrow>
                Returns (Inr (watts / 1000 *
                  (Minutes interval / 60 * (if vCPU p = 0 then UnitAmount m else vCPU p)) *
                  pue p * gridCO2e p))))"
  by (simp add: cpu_def cubicSplineInterpolation_eq Let_def split: option.splits)







text \<open>
  C6, as amended. \<open>cpu\<close> uses the dataset's vCPU count when it is nonzero and the metric's
  unit amount otherwise. It returns the error that the vCPU count is zero exactly when
  both are zero, and it returns an error at all exactly when both are zero or the wattage
  curve is empty.
\<close>

theorem cpu_vCPU_selection:
  "(cpu c interval p m = Returns (Inl ''error vCPU set to 0'') \<longleftrightarrow>
      vCPU p = 0 \<and> UnitAmount m = 0) \<and>
   ((\<exists>err. cpu c interval p m = Returns (Inl err)) \<longleftrightarrow>
      (vCPU p = 0 \<and> UnitAmount m = 0) \<or> wattage p = []) \<and>
   (\<not> (vCPU p = 0 \<and> UnitAmount m = 0) \<and> wattage p \<noteq> [] \<longrightarrow>
      cpu c interval p m =
        (case NewCubicSpline c (map (\<lambda>w. real_of_int (Percentage w)) (wattage p))
                (map Wattage (wattage p)) (Usage m) of
           None \<Rightarrow> Panics
         | Some watts \<Rightarrow>
             Returns (Inr (watts / 1000 *
               (Minutes interval / 60 * (if vCPU p \<noteq> 0 then vCPU p else UnitAmount m)) *
               pue p * gridCO2e p))))"
  by (auto simp add: cpu_eq split: option.splits)

text \<open>
  With no vCPU count from the dataset, the four vCPUs of the metric are used; with
  neither, the error is returned.
\<close>

theorem cpu_vCPU_selection_witness:
  "vCPU (demo_params\<lparr>vCPU := 0\<rparr>) = 0 \<and> UnitAmount demo_cpu \<noteq> 0 \<and>
   wattage (demo_params\<lparr>vCPU := 0\<rparr>) \<noteq> [] \<and>
   cpu demo_env 300000000000 (demo_params\<lparr>vCPU := 0\<rparr>) demo_cpu = Returns (Inr (11 / 5)) \<and>
   cpu demo_env 300000000000 (demo_params\<lparr>vCPU := 0\<rparr>) (demo_cpu\<lparr>UnitAmount := 0\<rparr>) =
     Returns (Inl ''error vCPU set to 0'')"
  using cpu_vCPU_selection [of demo_env 300000000000 "demo_params\<lparr>vCPU := 0\<rparr>" demo_cpu]
    cpu_vCPU_selection [of demo_env 300000000000 "demo_params\<lparr>vCPU := 0\<rparr>"
      "demo_cpu\<lparr>UnitAmount := 0\<rparr>"]
  by (simp add: demo_defs Minutes_eq)

text \<open>
  C6, as stated, fails: with four vCPUs from the dataset and an empty wattage curve,
  \<open>cpu\<close> returns an error although the vCPU count is not zero.
\<close>

theorem cpu_error_nonzero_vCPU_counterexample:
  "vCPU (demo_params\<lparr>wattage := []\<rparr>) \<noteq> 0 \<and>
   cpu demo_env 300000000000 (demo_params\<lparr>wattage := []\<rparr>) demo_cpu =
     Returns (Inl ''error: cannot calculate CPU energy, no wattage found'')"
  by (simp add: cpu_def cubicSplineInterpolation_def demo_defs)

section \<open>Properties of the handler\<close>










text \<open>
  When the factors of the provider, the coefficient of the region and the embodied specs of
  the kind are all found, the handler goes on to the calculation.
\<close>

lemma handleEvent_resolved:
  assumes "Data e = InstanceData inst"
    and "GetProviderEmissionFactors c (Provider inst) = Inr f"
    and "Coefficient f (Region inst) = Some g"
    and "Embodied f (Kind inst) = Some specs"
  shows "handleEvent c e =
     handleEvent_calculate c inst
       (handleEvent_params c (g * (1000 * 1000)) (AveragePUE f) (Kind inst) specs)"
  using assms by (simp add: handleEvent_def Let_def)

text \<open>
  C2. When the region of the instance is absent from the coefficients of its provider, the
  handler logs one error and returns: that log line is all it does, so no emission is
  calculated and no event is published.
\<close>

theorem handleEvent_region_absent:
  assumes "Type e = MetricsCollectedEvent"
    and "Data e = InstanceData inst"
    and "GetProviderEmissionFactors c (Provider inst) = Inr f"
    and "Coefficient f (Region inst) = None"
  shows "Handle c e =
           ([LogError ''region does not exist in factors for provider''], Returned) \<and>
         handleEvent c e =
           ([LogError ''region does not exist in factors for provider''], Returned) \<and>
         published (fst (handleEvent c e)) = []"
  using assms by (simp add: Handle_def handleEvent_def)

theorem handleEvent_region_absent_witness:
  "Type (demo_event (demo_instance\<lparr>Region := ''mars-1''\<rparr>)) = MetricsCollectedEvent \<and>
   GetProviderEmissionFactors demo_env (Provider (demo_instance\<lparr>Region := ''mars-1''\<rparr>)) =
     Inr demo_factors \<and>
   Coefficient demo_factors (Region (demo_instance\<lparr>Region := ''mars-1''\<rparr>)) = None \<and>
   handleEvent demo_env (demo_event (demo_instance\<lparr>Region := ''mars-1''\<rparr>)) =
     ([LogError ''region does not exist in factors for provider''], Returned)"
proof -
  let ?i = "demo_instance\<lparr>Region := ''mars-1''\<rparr>"
  have h1: "Type (demo_event ?i) = MetricsCollectedEvent"
    by (simp add: demo_defs)
  have h2: "Data (demo_event ?i) = InstanceData ?i"
    by (simp add: demo_defs)
  have h3: "GetProviderEmissionFactors demo_env (Provider ?i) = Inr demo_factors"
    by (simp add: demo_env_def demo_instance_def)
  have h4: "Coefficient demo_factors (Region ?i) = None"
    by (simp add: demo_factors_def demo_instance_def)
  show ?thesis
    using h1 h3 h4 handleEvent_region_absent [OF h1 h2 h3 h4]
    by simp
qed

text \<open>
  C3. When the external dataset has no entry for the kind of the instance, the handler
  calculates with an hourly embodied factor of
  \<open>totalEmbodied \<times> ((1 / 24 / 365) / 6) \<times> (kindVCPU / totalVCPU)\<close>, taken from the embodied
  specs of the kind, 6 being the server lifespan in years.
\<close>

theorem handleEvent_fallback_embodiedFactor:
  assumes "Data e = InstanceData inst"
    and "GetProviderEmissionFactors c (Provider inst) = Inr f"
    and "Coefficient f (Region inst) = Some g"
    and "Embodied f (Kind inst) = Some specs"
    and "awsInstances c (Kind inst) = None"
  shows "serverLifespan = 6 \<and>
     embodiedFactor (handleEvent_params c (g * 1000000) (AveragePUE f) (Kind inst) specs) =
       TotalEmbodiedKiloWattCO2e specs * ((1 / 24 / 365) / 6) *
       (KindVCPU specs / TotalVCPU specs) \<and>
     handleEvent c e =
       handleEvent_calculate c inst
         \<lparr>gridCO2e = g * 1000000, pue = AveragePUE f,
          wattage = [\<lparr>Percentage = 0, Wattage = MinWatts specs\<rparr>,
                     \<lparr>Percentage = 100, Wattage = MaxWatts specs\<rparr>],
          vCPU = 0,
          embodiedFactor = TotalEmbodiedKiloWattCO2e specs * ((1 / 24 / 365) / 6) *
                           (KindVCPU specs / TotalVCPU specs)\<rparr>"
  using assms(5)
  by (simp add: handleEvent_resolved [OF assms(1-4)] handleEvent_params_def
      hourlyEmbodiedEmissions_def serverLifespan_def)

text \<open>
  A kind with 4 of the 96 vCPUs of a platform whose embodied total is 1051200: 20 an hour
  for the platform, five sixths for the kind.
\<close>

theorem handleEvent_fallback_embodiedFactor_witness:
  "GetProviderEmissionFactors demo_env (Provider demo_instance) = Inr demo_factors \<and>
   Coefficient demo_factors (Region demo_instance) = Some (1 / 10000) \<and>
   Embodied demo_factors (Kind demo_instance) = Some demo_specs \<and>
   awsInstances demo_env (Kind demo_instance) = None \<and>
   embodiedFactor (handleEvent_params demo_env (1 / 10000 * 1000000) (AveragePUE demo_factors)
     (Kind demo_instance) demo_specs) = 5 / 6 \<and>
   handleEvent demo_env (demo_event demo_instance) =
     handleEvent_calculate demo_env demo_instance (demo_params\<lparr>vCPU := 0\<rparr>)"
proof -
  have h1: "Data (demo_event demo_instance) = InstanceData demo_instance"
    by (simp add: demo_defs)
  have h2: "GetProviderEmissionFactors demo_env (Provider demo_instance) = Inr demo_factors"
    by (simp add: demo_env_def demo_instance_def)
  have h3: "Coefficient demo_factors (Region demo_instance) = Some (1 / 10000)"
    by (simp add: demo_factors_def demo_instance_def)
  have h4: "Embodied demo_factors (Kind demo_instance) = Some demo_specs"
    by (simp add: demo_factors_def demo_instance_def)
  have h5: "awsInstances demo_env (Kind demo_instance) = None"
    by (simp add: demo_env_def demo_instance_def)
  show ?thesis
    using h2 h3 h4 h5 handleEvent_fallback_embodiedFactor [OF h1 h2 h3 h4 h5, THEN conjunct2]
    by (simp add: demo_factors_def demo_specs_def demo_params_def demo_curve_def)
qed

text \<open>
  C4, as amended. For an instance whose provider and region are found: if its kind is in
  the embodied specs of the provider, the handler calculates with the wattage curve, the
  vCPU count and the hourly embodied factor of the external dataset's entry for the kind
  when there is one, and with the two-point curve from the minimum to the maximum watts
  and the derived factor only when there is none; if its kind is not in the embodied
  specs, the handler logs an error and returns, whatever the external dataset holds.
\<close>

theorem handleEvent_tier_selection:
  assumes "Data e = InstanceData inst"
    and "GetProviderEmissionFactors c (Provider inst) = Inr f"
    and "Coefficient f (Region inst) = Some g"
  shows "handleEvent c e =
     (case Embodied f (Kind inst) of
        None \<Rightarrow> ([LogError ''failed finding instance in factor data''], Returned)
      | Some specs \<Rightarrow>
          handleEvent_calculate c inst
            (case awsInstances c (Kind inst) of
               Some d \<Rightarrow>
                 \<lparr>gridCO2e = g * 1000000, pue = AveragePUE f, wattage = PkgWatt d,
                  vCPU = real_of_int (VCPU d), embodiedFactor = EmbodiedHourlyGCO2e d\<rparr>
             | None \<Rightarrow>
                 \<lparr>gridCO2e = g * 1000000, pue = AveragePUE f,
                  wattage = [\<lparr>Percentage = 0, Wattage = MinWatts specs\<rparr>,
                             \<lparr>Percentage = 100, Wattage = MaxWatts specs\<rparr>],
                  vCPU = 0, embodiedFactor = hourlyEmbodiedEmissions specs\<rparr>))"
proof (cases "Embodied f (Kind inst)")
  case None
  with assms show ?thesis
    by (simp add: handleEvent_def)
next
  case (Some specs)
  then show ?thesis
    by (simp add: handleEvent_resolved [OF assms Some] handleEvent_params_def
        split: option.splits)
qed

text \<open>A kind that both the embodied specs and the external dataset know.\<close>

theorem handleEvent_tier_selection_witness:
  "GetProviderEmissionFactors demo_env (Provider (demo_instance\<lparr>Kind := ''m5.large''\<rparr>)) =
     Inr demo_factors \<and>
   Coefficient demo_factors (Region (demo_instance\<lparr>Kind := ''m5.large''\<rparr>)) =
     Some (1 / 10000) \<and>
   Embodied demo_factors (Kind (demo_instance\<lparr>Kind := ''m5.large''\<rparr>)) = Some demo_specs \<and>
   awsInstances demo_env ''m5.large'' = Some demo_m5 \<and>
   handleEvent demo_env (demo_event (demo_instance\<lparr>Kind := ''m5.large''\<rparr>)) =
     handleEvent_calculate demo_env (demo_instance\<lparr>Kind := ''m5.large''\<rparr>)
       \<lparr>gridCO2e = 100, pue = 12 / 10, wattage = demo_curve, vCPU = 2, embodiedFactor = 3\<rparr>"
proof -
  let ?i = "demo_instance\<lparr>Kind := ''m5.large''\<rparr>"
  have h1: "Data (demo_event ?i) = InstanceData ?i"
    by (simp add: demo_defs)
  have h2: "GetProviderEmissionFactors demo_env (Provider ?i) = Inr demo_factors"
    by (simp add: demo_env_def demo_instance_def)
  have h3: "Coefficient demo_factors (Region ?i) = Some (1 / 10000)"
    by (simp add: demo_factors_def demo_instance_def)
  have h4: "Embodied demo_factors (Kind ?i) = Some demo_specs"
    by (simp add: demo_factors_def demo_instance_def)
  have h5: "awsInstances demo_env ''m5.large'' = Some demo_m5"
    by (simp add: demo_env_def)
  show ?thesis
    using h2 h3 h4 h5 handleEvent_tier_selection [OF h1 h2 h3]
    by (simp add: demo_factors_def demo_m5_def)
qed

text \<open>
  C4, as stated, fails: a kind that the external dataset knows and the embodied specs of
  the provider do not is skipped with an error, and nothing of its entry is used.
\<close>

theorem handleEvent_dataset_entry_unused_counterexample:
  "awsInstances demo_env (Kind (demo_instance\<lparr>Kind := ''m6g.large''\<rparr>)) = Some demo_m5 \<and>
   handleEvent demo_env (demo_event (demo_instance\<lparr>Kind := ''m6g.large''\<rparr>)) =
     ([LogError ''failed finding instance in factor data''], Returned)"
  by (simp add: handleEvent_def demo_defs)






section \<open>The example, end to end\<close>

text \<open>
  The handler on the example instance: the memory metric is logged as failed, the CPU
  metric receives 2.2 grams, the instance 5/72 gram of embodied emissions, and one event
  is published.
\<close>

lemma handleEvent_demo:
  "handleEvent demo_env (demo_event demo_instance) =
     ([LogError ''failed calculating operational emissions'',
       Publish \<lparr>Type = EmissionsCalculatedEvent,
         Data = InstanceData (demo_instance
           \<lparr>Metrics := [demo_memory,
              demo_cpu\<lparr>Emissions := Some (NewResourceEmission (11 / 5) GCO2eqkWh)\<rparr>],
            EmbodiedEmissions := Some (NewResourceEmission (5 / 72) GCO2eqkWh)\<rparr>)\<rparr>],
      Returned)"
  by (simp add: handleEvent_def handleEvent_calculate_def handleEvent_params_def
      hourlyEmbodiedEmissions_def serverLifespan_def embodiedEmissions_def
      operationalEmissions_def cpu_eq Minutes_eq demo_defs)

end
